theory Spec2Isabelle
  imports Complex_Main
begin

section \<open>Python text\<close>

text \<open>
  A Python \<open>str\<close> is a sequence of Unicode code points: \<open>len\<close>, slicing and
  \<open>strip\<close> all count code points, so a text is a list of code point numbers.
  \<open>lit\<close> turns a source literal (ASCII) into such a text.
\<close>

type_synonym pystr = "nat list"

definition lit :: "string \<Rightarrow> pystr" where
  "lit s = map of_char s"

text \<open>A text between single quotes, and between double quotes.\<close>

definition sq :: "pystr \<Rightarrow> pystr" where
  "sq s = 39 # s @ [39]"

definition dq :: "pystr \<Rightarrow> pystr" where
  "dq s = 34 # s @ [34]"

text \<open>The character U+2026 that \<open>python_exec\<close> appends to a cut stderr snippet.\<close>

definition ELLIPSIS :: pystr where
  "ELLIPSIS = [8230]"

text \<open>
  \<open>str.isspace\<close> on one code point: the white space table of CPython
  (\<open>_PyUnicode_IsWhitespace\<close>).
\<close>

definition isspace :: "nat \<Rightarrow> bool" where
  "isspace c \<longleftrightarrow>
     (9 \<le> c \<and> c \<le> 13) \<or> (28 \<le> c \<and> c \<le> 32) \<or> c = 133 \<or> c = 160 \<or> c = 5760 \<or>
     (8192 \<le> c \<and> c \<le> 8202) \<or> c = 8232 \<or> c = 8233 \<or> c = 8239 \<or> c = 8287 \<or> c = 12288"

text \<open>\<open>str.strip()\<close>: leading and trailing white space removed.\<close>

definition strip :: "pystr \<Rightarrow> pystr" where
  "strip s = rev (dropWhile isspace (rev (dropWhile isspace s)))"

text \<open>\<open>str(n)\<close> of an integer, as the f-strings of the source render it.\<close>

fun digits :: "nat \<Rightarrow> pystr" where
  "digits n = (if n < 10 then [48 + n] else digits (n div 10) @ [48 + n mod 10])"

definition str_int :: "int \<Rightarrow> pystr" where
  "str_int i = (if i < 0 then 45 # digits (nat (- i)) else digits (nat i))"

text \<open>\<open>x or ""\<close> for an optional text \<open>x\<close>.\<close>

definition or_empty :: "pystr option \<Rightarrow> pystr" where
  "or_empty x = (case x of None \<Rightarrow> [] | Some s \<Rightarrow> s)"



section \<open>Values decoded from JSON\<close>

text \<open>
  What \<open>json.loads\<close> and \<open>resp.json()\<close> return: Python values. \<open>PyNaN\<close> and
  \<open>PyInfinity\<close> are the floats \<open>nan\<close> and \<open>inf\<close> (of either sign), which
  \<open>json.loads\<close> accepts.
\<close>

datatype pyval =
    PyNone
  | PyBool bool
  | PyInt int
  | PyFloat real
  | PyNaN
  | PyInfinity
  | PyStr pystr
  | PyList "pyval list"
  | PyDict "(pystr \<times> pyval) list"

datatype pyerr =
    ToolError pystr
  | AttributeError
  | TypeError
  | ValueError
  | OverflowError
  | ValidationError

text \<open>
  Functions of the Python library that the source calls and whose code is not part of the
  repository; every theorem holds for any choice of them.
\<close>

record pylib =
  str_float :: "real \<Rightarrow> pystr"
  json_loads :: "pystr \<Rightarrow> pyval option"
  json_dumps :: "pystr \<Rightarrow> pystr"
  dedent :: "pystr \<Rightarrow> pystr"
  int_of_text :: "pystr \<Rightarrow> int option"

section \<open>The broker: \<open>docker/sandbox/execd.py\<close>\<close>

definition OUTPUT_CAP :: nat where
  "OUTPUT_CAP = 32768"

record broker_config =
  SANDBOX_IMAGE :: pystr
  RUNTIME :: pystr
  DEFAULT_TIMEOUT :: int

text \<open>
  \<open>RunReq\<close>: pydantic admits \<open>1 \<le> timeout_s \<le> 30\<close>, \<open>64 \<le> mem_mb \<le> 4096\<close> and
  \<open>0.1 \<le> cpus \<le> 2.0\<close>.
\<close>

record RunReq =
  code :: pystr
  timeout_s :: int
  mem_mb :: int
  cpus :: real

definition RunReq_valid :: "RunReq \<Rightarrow> bool" where
  "RunReq_valid req \<longleftrightarrow>
     1 \<le> timeout_s req \<and> timeout_s req \<le> 30 \<and> 64 \<le> mem_mb req \<and> mem_mb req \<le> 4096 \<and>
     1 / 10 \<le> cpus req \<and> cpus req \<le> 2"

record RunResp =
  stdout :: pystr
  stderr :: pystr
  exit_code :: int

datatype http_exception = HTTPException int pystr

text \<open>
  A captured stream, as \<open>text=True\<close> treats its bytes: they decode (strictly, new lines
  translated) to a text, or they do not, and decoding raises \<open>UnicodeDecodeError\<close> with
  the message given.
\<close>

datatype stream =
    Decodes pystr
  | Undecodable pystr

text \<open>
  The container that \<open>docker run\<close> starts, seen from the broker: either the launch fails,
  or a process runs for \<open>duration\<close> seconds and leaves its two streams and its return code.
\<close>

record process =
  duration :: real
  out_stream :: stream
  err_stream :: stream
  returncode :: int

datatype launch =
    NoSuchFile pystr
  | LaunchFailure pystr
  | Runs process

type_synonym docker = "pystr list \<Rightarrow> pystr \<Rightarrow> launch"

datatype sp_result =
    CompletedProcess "pystr option" "pystr option" int
  | TimeoutExpired
  | FileNotFoundError pystr
  | OtherException pystr

text \<open>
  \<open>subprocess.run(cmd, input=..., text=True, capture_output=True, timeout=t)\<close>, by its
  documented contract: a child still running after \<open>t\<close> seconds is killed and
  \<open>TimeoutExpired\<close> is raised, before anything is decoded. Otherwise stdout and then
  stderr are decoded; a stream that does not decode raises (an exception that is neither
  \<open>TimeoutExpired\<close> nor \<open>FileNotFoundError\<close>), and else the completed process is
  returned with both texts.
\<close>

fun subprocess_run :: "launch \<Rightarrow> int \<Rightarrow> sp_result" where
  "subprocess_run (NoSuchFile e) t = FileNotFoundError e"
| "subprocess_run (LaunchFailure e) t = OtherException e"
| "subprocess_run (Runs p) t =
     (if real_of_int t < duration p then TimeoutExpired
      else
        (case out_stream p of
           Undecodable m \<Rightarrow> OtherException m
         | Decodes so \<Rightarrow>
             (case err_stream p of
                Undecodable m \<Rightarrow> OtherException m
              | Decodes se \<Rightarrow> CompletedProcess (Some so) (Some se) (returncode p))))"

definition docker_cmd :: "pylib \<Rightarrow> broker_config \<Rightarrow> RunReq \<Rightarrow> pystr list" where
  "docker_cmd L cfg req =
     [lit ''docker'', lit ''run'', lit ''--rm'', lit ''-i'',
      lit ''--network'', lit ''none'',
      lit ''--pids-limit'', lit ''64'',
      lit ''--memory'', str_int (mem_mb req) @ lit ''m'',
      lit ''--cpus'', str_float L (cpus req),
      lit ''--read-only'',
      lit ''--cap-drop'', lit ''ALL'',
      lit ''--security-opt'', lit ''no-new-privileges:true'',
      lit ''--tmpfs'', lit ''/tmp:rw,noexec,nosuid,nodev,size=64m'',
      lit ''--tmpfs'', lit ''/home:rw,noexec,nosuid,nodev,size=64m'',
      lit ''-e'', lit ''PYTHONUNBUFFERED=1'',
      lit ''-e'', lit ''MPLBACKEND=Agg'',
      lit ''-e'', lit ''MPLCONFIGDIR=/tmp'',
      lit ''-e'', lit ''XDG_CACHE_HOME=/tmp'',
      lit ''-e'', lit ''OPENBLAS_NUM_THREADS=1'',
      lit ''-e'', lit ''OMP_NUM_THREADS=1'',
      lit ''-e'', lit ''NUMEXPR_MAX_THREADS=1'']
     @ (if RUNTIME cfg \<noteq> [] then [lit ''--runtime'', RUNTIME cfg] else [])
     @ [SANDBOX_IMAGE cfg, lit ''python'', lit ''-'']"

definition run :: "pylib \<Rightarrow> broker_config \<Rightarrow> docker \<Rightarrow> RunReq \<Rightarrow> http_exception + RunResp" where
  "run L cfg dk req =
     (case subprocess_run (dk (docker_cmd L cfg req) (code req))
             (min (timeout_s req) (DEFAULT_TIMEOUT cfg)) of
        CompletedProcess so se rc \<Rightarrow>
          Inr \<lparr>stdout = take OUTPUT_CAP (or_empty so),
               stderr = take OUTPUT_CAP (or_empty se),
               exit_code = rc\<rparr>
      | TimeoutExpired \<Rightarrow> Inr \<lparr>stdout = [], stderr = lit ''TIMEOUT'', exit_code = 124\<rparr>
      | FileNotFoundError e \<Rightarrow> Inl (HTTPException 500 (lit ''Docker CLI not found: '' @ e))
      | OtherException e \<Rightarrow> Inl (HTTPException 500 e))"


section \<open>Python values in the two tools\<close>

text \<open>Truth value of a decoded value, as \<open>or\<close> and \<open>if\<close> test it.\<close>

fun truthy :: "pyval \<Rightarrow> bool" where
  "truthy PyNone = False"
| "truthy (PyBool b) = b"
| "truthy (PyInt n) = (n \<noteq> 0)"
| "truthy (PyFloat x) = (x \<noteq> 0)"
| "truthy PyNaN = True"
| "truthy PyInfinity = True"
| "truthy (PyStr s) = (s \<noteq> [])"
| "truthy (PyList xs) = (xs \<noteq> [])"
| "truthy (PyDict kv) = (kv \<noteq> [])"

text \<open>\<open>a or b\<close>.\<close>

definition py_or :: "pyval \<Rightarrow> pyval \<Rightarrow> pyval" where
  "py_or a b = (if truthy a then a else b)"

text \<open>\<open>d.get(k, dflt)\<close>: only a dict has \<open>get\<close>.\<close>

fun py_get :: "pyval \<Rightarrow> pystr \<Rightarrow> pyval \<Rightarrow> pyerr + pyval" where
  "py_get (PyDict kv) k dflt = Inr (case map_of kv k of None \<Rightarrow> dflt | Some v \<Rightarrow> v)"
| "py_get _ k dflt = Inl AttributeError"

text \<open>\<open>v.strip()\<close>: among decoded values only a text has \<open>strip\<close>.\<close>

fun py_strip :: "pyval \<Rightarrow> pyerr + pystr" where
  "py_strip (PyStr s) = Inr (strip s)"
| "py_strip _ = Inl AttributeError"

text \<open>\<open>int(v)\<close>: a float is cut towards zero, a text is parsed by the library.\<close>

fun py_int :: "pylib \<Rightarrow> pyval \<Rightarrow> pyerr + int" where
  "py_int L (PyInt n) = Inr n"
| "py_int L (PyBool b) = Inr (if b then 1 else 0)"
| "py_int L (PyFloat x) = Inr (if 0 \<le> x then \<lfloor>x\<rfloor> else \<lceil>x\<rceil>)"
| "py_int L PyNaN = Inl ValueError"
| "py_int L PyInfinity = Inl OverflowError"
| "py_int L (PyStr s) = (case int_of_text L s of None \<Rightarrow> Inl ValueError | Some n \<Rightarrow> Inr n)"
| "py_int L PyNone = Inl TypeError"
| "py_int L (PyList xs) = Inl TypeError"
| "py_int L (PyDict kv) = Inl TypeError"

text \<open>
  The body of a 2xx answer of \<open>POST /run\<close> as the client decodes it: the broker declares
  \<open>response_model=RunResp\<close>, so it is an object with these three members.
\<close>

definition resp_json :: "RunResp \<Rightarrow> pyval" where
  "resp_json r =
     PyDict [(lit ''stdout'', PyStr (stdout r)),
             (lit ''stderr'', PyStr (stderr r)),
             (lit ''exit_code'', PyInt (exit_code r))]"

section \<open>Calling the broker\<close>

record tool_config =
  EXEC_URL :: pystr
  CPU_SEC :: int
  MEM_MB :: int
  CPUS :: real

text \<open>
  What the \<open>try\<close> block around the HTTP call can end in: an \<open>httpx.HTTPError\<close> (no
  connection, a non-2xx status), any other exception, or the decoded body. The two
  texts are \<open>str(e)\<close>.
\<close>

datatype transport =
    HTTPError pystr
  | ClientException pystr
  | Body pyval

text \<open>\<open>client.post(url, json=payload)\<close> under a client timeout: timeout, URL, payload.\<close>

type_synonym http_post = "int \<Rightarrow> pystr \<Rightarrow> RunReq \<Rightarrow> transport"


section \<open>The direct-code tool: \<open>mcp_server/tools/python_exec.py\<close>\<close>

text \<open>
  \<open>PythonExecResult\<close> has the three fields of \<open>RunResp\<close> and \<open>json\<close>, the decoded
  stdout (\<open>PyNone\<close> for Python's \<open>None\<close>).
\<close>

record PythonExecResult = RunResp +
  json :: pyval

text \<open>The snippet that reports the interpreter and its packages.\<close>

definition INTROSPECTION :: pystr where
  "INTROSPECTION =
     lit ''import json,importlib.metadata,platform\<newline>''
     @ lit ''pkgs=[{'' @ sq (lit ''name'') @ lit '':d.metadata['' @ sq (lit ''Name'') @ lit ''],''
     @ sq (lit ''version'') @ lit '':d.version}''
     @ lit ''      for d in importlib.metadata.distributions()]\<newline>''
     @ lit ''print(json.dumps({'' @ sq (lit ''python'') @ lit '':platform.python_version(),''
     @ lit ''                  '' @ sq (lit ''packages'') @ lit '':pkgs}))''"

definition NO_STDOUT :: pystr where
  "NO_STDOUT =
     lit ''No stdout captured. Make sure to print any results you want to use ''
     @ lit ''(prefer JSON, e.g., print(json.dumps({...}))).''"

text \<open>\<open>if not code: code = ...\<close>: an absent and an empty \<open>code\<close> are both false.\<close>

definition effective_code :: "pystr option \<Rightarrow> pystr" where
  "effective_code code_arg =
     (case code_arg of
        None \<Rightarrow> INTROSPECTION
      | Some c \<Rightarrow> if c = [] then INTROSPECTION else c)"

definition python_exec_payload :: "pylib \<Rightarrow> tool_config \<Rightarrow> pystr option \<Rightarrow> RunReq" where
  "python_exec_payload L cfg code_arg =
     \<lparr>code = dedent L (effective_code code_arg),
      timeout_s = CPU_SEC cfg,
      mem_mb = MEM_MB cfg,
      cpus = CPUS cfg\<rparr>"

text \<open>The message of the \<open>ToolError\<close> for a non-zero exit code.\<close>

definition failure_message :: "int \<Rightarrow> pystr \<Rightarrow> pystr" where
  "failure_message ec snippet =
     lit ''sandbox failed (exit '' @ str_int ec @ lit '')''
     @ (if snippet \<noteq> []
        then lit '': '' @ (if length snippet > 800 then take 800 snippet @ ELLIPSIS else snippet)
        else [])"

text \<open>\<open>PythonExecResult(stdout=out, stderr=err, ...)\<close>: pydantic wants two texts.\<close>

fun mk_PythonExecResult :: "pyval \<Rightarrow> pyval \<Rightarrow> int \<Rightarrow> pyval \<Rightarrow> pyerr + PythonExecResult" where
  "mk_PythonExecResult (PyStr out) (PyStr err) ec parsed =
     Inr \<lparr>stdout = out, stderr = err, exit_code = ec, json = parsed\<rparr>"
| "mk_PythonExecResult _ _ ec parsed = Inl ValidationError"

text \<open>\<open>json.loads(out)\<close> in its \<open>try\<close>: any exception leaves \<open>None\<close>.\<close>

fun parse_stdout :: "pylib \<Rightarrow> pyval \<Rightarrow> pyval" where
  "parse_stdout L (PyStr t) = (case json_loads L t of None \<Rightarrow> PyNone | Some v \<Rightarrow> v)"
| "parse_stdout L _ = PyNone"

text \<open>
  \<open>python_exec\<close> from \<open>out = ...\<close> on, for the decoded body \<open>data\<close>. The calls outside
  a \<open>try\<close> pass their exception on.
\<close>

definition python_exec_result :: "pylib \<Rightarrow> pyval \<Rightarrow> pyerr + PythonExecResult" where
  "python_exec_result L data =
     (case py_get data (lit ''stdout'') PyNone of Inl e \<Rightarrow> Inl e | Inr o0 \<Rightarrow>
     (case py_get data (lit ''stderr'') PyNone of Inl e \<Rightarrow> Inl e | Inr e0 \<Rightarrow>
     (case py_get data (lit ''exit_code'') (PyInt 1) of Inl e \<Rightarrow> Inl e | Inr c \<Rightarrow>
     (case py_int L c of Inl e \<Rightarrow> Inl e | Inr ec \<Rightarrow>
        (let out = py_or o0 (PyStr []); err = py_or e0 (PyStr []) in
         if ec \<noteq> 0 then
           (case py_strip err of
              Inl e \<Rightarrow> Inl e
            | Inr snippet \<Rightarrow> Inl (ToolError (failure_message ec snippet)))
         else
           (case py_strip out of
              Inl e \<Rightarrow> Inl e
            | Inr s \<Rightarrow>
                (if s = [] then Inl (ToolError NO_STDOUT)
                 else mk_PythonExecResult out err ec (parse_stdout L out))))))))"

definition python_exec :: "pylib \<Rightarrow> tool_config \<Rightarrow> http_post \<Rightarrow> pystr option \<Rightarrow> pyerr + PythonExecResult" where
  "python_exec L cfg post code_arg =
     (case post (CPU_SEC cfg + 3) (EXEC_URL cfg @ lit ''/run'') (python_exec_payload L cfg code_arg) of
        HTTPError e \<Rightarrow>
          Inl (ToolError (lit ''sandbox HTTP error: '' @ e @ lit ''. Check sandbox service (''
                          @ EXEC_URL cfg @ lit '').''))
      | ClientException e \<Rightarrow> Inl (ToolError (lit ''sandbox invocation error: '' @ e @ lit ''.''))
      | Body data \<Rightarrow> python_exec_result L data)"

section \<open>The shell tool: \<open>mcp_server/tools/shell_exec.py\<close>\<close>

text \<open>\<open>ShellExecResult\<close> has exactly the fields of \<open>RunResp\<close>.\<close>

type_synonym ShellExecResult = RunResp

text \<open>The Python program that runs the script in a nested shell and prints the triple.\<close>

definition py_wrapper :: "pylib \<Rightarrow> pystr \<Rightarrow> pystr option \<Rightarrow> pystr" where
  "py_wrapper L script stdin =
     strip
      (lit ''\<newline>''
       @ lit ''import json, subprocess, os, sys\<newline>''
       @ lit ''script = '' @ json_dumps L script @ lit ''\<newline>''
       @ lit ''inp    = '' @ json_dumps L (or_empty stdin) @ lit ''\<newline>''
       @ lit ''# Prefer bash if present for nicer pipes/globs; fall back to sh.\<newline>''
       @ lit ''shell = '' @ dq (lit ''/bin/bash'') @ lit '' if os.path.exists(''
       @ dq (lit ''/bin/bash'') @ lit '') else '' @ dq (lit ''/bin/sh'') @ lit ''\<newline>''
       @ lit ''p = subprocess.run([shell, '' @ dq (lit ''-lc'')
       @ lit '', script], input=inp, text=True, capture_output=True)\<newline>''
       @ lit ''print(json.dumps({'' @ dq (lit ''stdout'') @ lit '': p.stdout, ''
       @ dq (lit ''stderr'') @ lit '': p.stderr, '' @ dq (lit ''exit_code'')
       @ lit '': p.returncode}))\<newline>'')"

text \<open>\<open>timeout_s or CPU_SEC\<close>: an absent and a zero \<open>timeout_s\<close> are both false.\<close>

definition timeout_or :: "int option \<Rightarrow> int \<Rightarrow> int" where
  "timeout_or timeout_arg dflt =
     (case timeout_arg of None \<Rightarrow> dflt | Some t \<Rightarrow> if t = 0 then dflt else t)"

definition shell_exec_payload :: "pylib \<Rightarrow> tool_config \<Rightarrow> pystr \<Rightarrow> pystr option \<Rightarrow> int option \<Rightarrow> RunReq" where
  "shell_exec_payload L cfg script stdin timeout_arg =
     \<lparr>code = dedent L (py_wrapper L script stdin),
      timeout_s = timeout_or timeout_arg (CPU_SEC cfg),
      mem_mb = MEM_MB cfg,
      cpus = CPUS cfg\<rparr>"

text \<open>\<open>ShellExecResult(stdout=..., stderr=..., exit_code=...)\<close>: pydantic wants two texts.\<close>

fun mk_ShellExecResult :: "pyval \<Rightarrow> pyval \<Rightarrow> int \<Rightarrow> pyerr + ShellExecResult" where
  "mk_ShellExecResult (PyStr out) (PyStr err) ec = Inr \<lparr>stdout = out, stderr = err, exit_code = ec\<rparr>"
| "mk_ShellExecResult _ _ ec = Inl ValidationError"

text \<open>
  The \<open>try\<close> block after \<open>inner = json.loads(out)\<close>: the result built from the decoded
  \<open>inner\<close>, or the exception that the \<open>except\<close> clause catches.
\<close>

definition read_inner :: "pylib \<Rightarrow> pyval \<Rightarrow> pyval \<Rightarrow> pyerr + ShellExecResult" where
  "read_inner L inner err =
     (case py_get inner (lit ''stdout'') (PyStr []) of Inl e \<Rightarrow> Inl e | Inr so \<Rightarrow>
     (case py_get inner (lit ''stderr'') (PyStr []) of Inl e \<Rightarrow> Inl e | Inr se \<Rightarrow>
     (case py_get inner (lit ''exit_code'') (PyInt 0) of Inl e \<Rightarrow> Inl e | Inr c \<Rightarrow>
     (case py_int L c of Inl e \<Rightarrow> Inl e | Inr ec \<Rightarrow>
        mk_ShellExecResult so (py_or se err) ec))))"

definition unwrap_inner :: "pylib \<Rightarrow> pystr \<Rightarrow> pyval \<Rightarrow> pyerr + ShellExecResult" where
  "unwrap_inner L out err =
     (case json_loads L out of
        None \<Rightarrow> Inl ValueError
      | Some inner \<Rightarrow> read_inner L inner err)"

text \<open>\<open>shell_exec\<close> from \<open>out = ...\<close> on, for the decoded body \<open>data\<close>.\<close>

definition shell_exec_result :: "pylib \<Rightarrow> pyval \<Rightarrow> pyerr + ShellExecResult" where
  "shell_exec_result L data =
     (case py_get data (lit ''stdout'') PyNone of Inl e \<Rightarrow> Inl e | Inr o0 \<Rightarrow>
     (case py_strip (py_or o0 (PyStr [])) of Inl e \<Rightarrow> Inl e | Inr out \<Rightarrow>
     (case py_get data (lit ''stderr'') PyNone of Inl e \<Rightarrow> Inl e | Inr e0 \<Rightarrow>
        (let err = py_or e0 (PyStr []) in
         if out = [] then mk_ShellExecResult (PyStr []) err 0
         else
           (case unwrap_inner L out err of
              Inr res \<Rightarrow> Inr res
            | Inl e \<Rightarrow> mk_ShellExecResult (PyStr out) err 0)))))"

definition shell_exec ::
  "pylib \<Rightarrow> tool_config \<Rightarrow> http_post \<Rightarrow> pystr \<Rightarrow> pystr option \<Rightarrow> int option \<Rightarrow> pyerr + ShellExecResult" where
  "shell_exec L cfg post script stdin timeout_arg =
     (case post (timeout_or timeout_arg (CPU_SEC cfg) + 3) (EXEC_URL cfg @ lit ''/run'')
             (shell_exec_payload L cfg script stdin timeout_arg) of
        HTTPError e \<Rightarrow>
          Inl (ToolError (lit ''sandbox HTTP error: '' @ e @ lit ''. Check sandbox service (''
                          @ EXEC_URL cfg @ lit '').''))
      | ClientException e \<Rightarrow> Inl (ToolError (lit ''sandbox invocation error: '' @ e @ lit ''.''))
      | Body data \<Rightarrow> shell_exec_result L data)"


section \<open>Concrete inputs\<close>

text \<open>
  A container that behaves the same for every command line, a transport that always
  answers with the same broker response, a library that decodes nothing, and the default
  configuration of the source (\<open>SANDBOX_TIMEOUT=7\<close>, \<open>PYEXEC_TIMEOUT_S=6\<close>).
\<close>

definition always :: "launch \<Rightarrow> docker" where
  "always l = (\<lambda>cmd inp. l)"

definition answer :: "RunResp \<Rightarrow> http_post" where
  "answer r = (\<lambda>t url payload. Body (resp_json r))"

definition lib0 :: pylib where
  "lib0 = \<lparr>str_float = (\<lambda>x. []), json_loads = (\<lambda>s. None), json_dumps = (\<lambda>s. s),
           dedent = (\<lambda>s. s), int_of_text = (\<lambda>s. None)\<rparr>"

definition bcfg0 :: broker_config where
  "bcfg0 = \<lparr>SANDBOX_IMAGE = lit ''medschool-sandbox'', RUNTIME = [], DEFAULT_TIMEOUT = 7\<rparr>"

definition cfg0 :: tool_config where
  "cfg0 = \<lparr>EXEC_URL = lit ''http://sandbox:8088'', CPU_SEC = 6, MEM_MB = 512, CPUS = 1\<rparr>"

definition req0 :: RunReq where
  "req0 = \<lparr>code = lit ''print(1)'', timeout_s = 6, mem_mb = 512, cpus = 1\<rparr>"

text \<open>A process that finishes in two seconds, and one that needs seven and a half.\<close>

definition quick :: process where
  "quick = \<lparr>duration = 2, out_stream = Decodes (lit ''hi\<newline>''), err_stream = Decodes [], returncode = 3\<rparr>"

definition slow :: process where
  "slow = \<lparr>duration = 15 / 2, out_stream = Decodes (lit ''partial''), err_stream = Decodes [], returncode = 0\<rparr>"




text \<open>A process that ends in time and writes a byte that is not UTF-8 to stdout.\<close>

definition garbled :: process where
  "garbled = \<lparr>duration = 1,
               out_stream = Undecodable (lit ''utf-8 codec cannot decode byte 0xff''),
               err_stream = Decodes [],
               returncode = 0\<rparr>"

text \<open>
  What the wrapper prints for a script that writes \<open>hi\<close> and exits with 7, and a library
  whose \<open>json.loads\<close> decodes this one text.
\<close>

definition TRIPLE_TEXT :: pystr where
  "TRIPLE_TEXT =
     lit ''{'' @ dq (lit ''stdout'') @ lit '': '' @ dq (lit ''hi'' @ [92, 110]) @ lit '', ''
     @ dq (lit ''stderr'') @ lit '': '' @ dq [] @ lit '', ''
     @ dq (lit ''exit_code'') @ lit '': 7}''"

definition TRIPLE :: pyval where
  "TRIPLE = PyDict [(lit ''stdout'', PyStr (lit ''hi\<newline>'')),
                    (lit ''stderr'', PyStr []),
                    (lit ''exit_code'', PyInt 7)]"

definition lib1 :: pylib where
  "lib1 = lib0\<lparr>json_loads := (\<lambda>s. if s = TRIPLE_TEXT then Some TRIPLE else None)\<rparr>"








section \<open>Auxiliary facts\<close>

lemma req0_valid: "RunReq_valid req0"
  by (simp add: RunReq_valid_def req0_def)

lemma py_get_resp_json:
  "py_get (resp_json r) (lit ''stdout'') d = Inr (PyStr (stdout r))"
  "py_get (resp_json r) (lit ''stderr'') d = Inr (PyStr (stderr r))"
  "py_get (resp_json r) (lit ''exit_code'') d = Inr (PyInt (exit_code r))"
  by (simp_all add: resp_json_def lit_def)

lemma py_or_text: "py_or (PyStr s) (PyStr []) = PyStr s"
  by (simp add: py_or_def)

lemma run_Runs:
  assumes "dk (docker_cmd L cfg req) (code req) = Runs p"
  shows "run L cfg dk req =
    (if real_of_int (min (timeout_s req) (DEFAULT_TIMEOUT cfg)) < duration p
     then Inr \<lparr>stdout = [], stderr = lit ''TIMEOUT'', exit_code = 124\<rparr>
     else
       (case out_stream p of
          Undecodable m \<Rightarrow> Inl (HTTPException 500 m)
        | Decodes so \<Rightarrow>
            (case err_stream p of
               Undecodable m \<Rightarrow> Inl (HTTPException 500 m)
             | Decodes se \<Rightarrow>
                 Inr \<lparr>stdout = take OUTPUT_CAP so, stderr = take OUTPUT_CAP se,
                       exit_code = returncode p\<rparr>)))"
  using assms by (simp add: run_def or_empty_def split: stream.split)

lemma run_Inr_launched:
  assumes "run L cfg dk req = Inr r"
  shows "\<exists>p. dk (docker_cmd L cfg req) (code req) = Runs p"
  using assms
  by (cases "dk (docker_cmd L cfg req) (code req)") (simp_all add: run_def)

lemma python_exec_result_resp:
  "python_exec_result L (resp_json r) =
     (if exit_code r \<noteq> 0 then Inl (ToolError (failure_message (exit_code r) (strip (stderr r))))
      else if strip (stdout r) = [] then Inl (ToolError NO_STDOUT)
      else Inr \<lparr>stdout = stdout r, stderr = stderr r, exit_code = exit_code r,
                json = parse_stdout L (PyStr (stdout r))\<rparr>)"
  by (simp add: python_exec_result_def py_get_resp_json py_or_text)

lemma shell_exec_result_resp:
  "shell_exec_result L (resp_json r) =
     (if strip (stdout r) = [] then Inr \<lparr>stdout = [], stderr = stderr r, exit_code = 0\<rparr>
      else (case unwrap_inner L (strip (stdout r)) (PyStr (stderr r)) of
              Inr res \<Rightarrow> Inr res
            | Inl e \<Rightarrow> Inr \<lparr>stdout = strip (stdout r), stderr = stderr r, exit_code = 0\<rparr>))"
  by (simp add: shell_exec_result_def py_get_resp_json py_or_text Let_def split: sum.split)

lemma strip_Nil: "strip [] = []"
  by (simp add: strip_def)

lemma strip_snoc_space:
  assumes "isspace c"
  shows "strip (s @ [c]) = strip s"
proof (cases "\<forall>x\<in>set s. isspace x")
  case True
  then have "dropWhile isspace s = []" and "dropWhile isspace (s @ [c]) = []"
    unfolding dropWhile_eq_Nil_conv using assms by auto
  then show ?thesis unfolding strip_def by (simp only:)
next
  case False
  then have "dropWhile isspace (s @ [c]) = dropWhile isspace s @ [c]"
    by (auto simp: dropWhile_append1)
  then show ?thesis using assms by (simp add: strip_def)
qed

lemma strip_replicate:
  assumes "\<not> isspace x"
  shows "strip (replicate n x) = replicate n x"
  using assms by (simp add: strip_def)

lemma python_exec_Body:
  assumes "post (CPU_SEC cfg + 3) (EXEC_URL cfg @ lit ''/run'') (python_exec_payload L cfg code_arg)
             = Body data"
  shows "python_exec L cfg post code_arg = python_exec_result L data"
  using assms by (simp add: python_exec_def)

lemma shell_exec_Body:
  assumes "post (timeout_or timeout_arg (CPU_SEC cfg) + 3) (EXEC_URL cfg @ lit ''/run'')
             (shell_exec_payload L cfg script stdin timeout_arg) = Body data"
  shows "shell_exec L cfg post script stdin timeout_arg = shell_exec_result L data"
  using assms by (simp add: shell_exec_def)

lemma python_exec_answer: "python_exec L cfg (answer r) code_arg = python_exec_result L (resp_json r)"
  by (simp add: python_exec_def answer_def)


lemma read_inner_triple:
  assumes "map_of kv (lit ''stdout'') = Some (PyStr so)"
    and "map_of kv (lit ''stderr'') = Some (PyStr se)"
    and "map_of kv (lit ''exit_code'') = Some (PyInt ec)"
  shows "read_inner L (PyDict kv) (PyStr err) =
           Inr \<lparr>stdout = so, stderr = (if se = [] then err else se), exit_code = ec\<rparr>"
  using assms by (simp add: read_inner_def py_or_def)

lemma unwrap_inner_Some: "json_loads L out = Some inner \<Longrightarrow> unwrap_inner L out err = read_inner L inner err"
  by (simp add: unwrap_inner_def)















lemma run_always_Runs:
  "run L cfg (always (Runs p)) req =
    (if real_of_int (min (timeout_s req) (DEFAULT_TIMEOUT cfg)) < duration p
     then Inr \<lparr>stdout = [], stderr = lit ''TIMEOUT'', exit_code = 124\<rparr>
     else
       (case out_stream p of
          Undecodable m \<Rightarrow> Inl (HTTPException 500 m)
        | Decodes so \<Rightarrow>
            (case err_stream p of
               Undecodable m \<Rightarrow> Inl (HTTPException 500 m)
             | Decodes se \<Rightarrow>
                 Inr \<lparr>stdout = take OUTPUT_CAP so, stderr = take OUTPUT_CAP se,
                       exit_code = returncode p\<rparr>)))"
  by (rule run_Runs) (simp add: always_def)

section \<open>The broker\<close>

text \<open>
  C1. When the container runs past the deadline, \<open>run\<close> returns exactly
  \<open>exit_code = 124\<close>, \<open>stderr = "TIMEOUT"\<close>, \<open>stdout = ""\<close>. No other exit code is made up:
  whenever \<open>run\<close> returns a response, a process was started, and the response is either
  this one, for a process past the deadline, or carries the return code of a process that
  ended in time.
\<close>

theorem run_timeout:
  "(dk (docker_cmd L cfg req) (code req) = Runs p \<and>
      real_of_int (min (timeout_s req) (DEFAULT_TIMEOUT cfg)) < duration p \<longrightarrow>
      run L cfg dk req = Inr \<lparr>stdout = [], stderr = lit ''TIMEOUT'', exit_code = 124\<rparr>)
   \<and> (run L cfg dk req = Inr r \<longrightarrow>
        (\<exists>q. dk (docker_cmd L cfg req) (code req) = Runs q \<and>
          (real_of_int (min (timeout_s req) (DEFAULT_TIMEOUT cfg)) < duration q
             \<and> r = \<lparr>stdout = [], stderr = lit ''TIMEOUT'', exit_code = 124\<rparr>
           \<or> duration q \<le> real_of_int (min (timeout_s req) (DEFAULT_TIMEOUT cfg))
             \<and> exit_code r = returncode q)))"
proof (intro conjI impI)
  assume "dk (docker_cmd L cfg req) (code req) = Runs p \<and>
      real_of_int (min (timeout_s req) (DEFAULT_TIMEOUT cfg)) < duration p"
  then show "run L cfg dk req = Inr \<lparr>stdout = [], stderr = lit ''TIMEOUT'', exit_code = 124\<rparr>"
    by (simp add: run_Runs)
next
  assume ok: "run L cfg dk req = Inr r"
  then obtain q where q: "dk (docker_cmd L cfg req) (code req) = Runs q"
    using run_Inr_launched by blast
  show "\<exists>q. dk (docker_cmd L cfg req) (code req) = Runs q \<and>
          (real_of_int (min (timeout_s req) (DEFAULT_TIMEOUT cfg)) < duration q
             \<and> r = \<lparr>stdout = [], stderr = lit ''TIMEOUT'', exit_code = 124\<rparr>
           \<or> duration q \<le> real_of_int (min (timeout_s req) (DEFAULT_TIMEOUT cfg))
             \<and> exit_code r = returncode q)"
  proof (cases "real_of_int (min (timeout_s req) (DEFAULT_TIMEOUT cfg)) < duration q")
    case True
    with ok q have "r = \<lparr>stdout = [], stderr = lit ''TIMEOUT'', exit_code = 124\<rparr>"
      by (simp add: run_Runs)
    with True q show ?thesis by blast
  next
    case False
    with ok q have "exit_code r = returncode q"
      by (auto simp: run_Runs split: stream.splits)
    with False q show ?thesis by auto
  qed
qed

theorem run_timeout_witness:
  "run lib0 bcfg0 (always (Runs slow)) req0
     = Inr \<lparr>stdout = [], stderr = lit ''TIMEOUT'', exit_code = 124\<rparr>
   \<and> run lib0 bcfg0 (always (Runs quick)) req0
     = Inr \<lparr>stdout = lit ''hi\<newline>'', stderr = [], exit_code = 3\<rparr>
   \<and> (\<exists>q. always (Runs quick) (docker_cmd lib0 bcfg0 req0) (code req0) = Runs q \<and>
          (real_of_int (min (timeout_s req0) (DEFAULT_TIMEOUT bcfg0)) < duration q
             \<and> \<lparr>stdout = lit ''hi\<newline>'', stderr = [], exit_code = 3\<rparr>
                 = \<lparr>stdout = [], stderr = lit ''TIMEOUT'', exit_code = 124\<rparr>
           \<or> duration q \<le> real_of_int (min (timeout_s req0) (DEFAULT_TIMEOUT bcfg0))
             \<and> 3 = returncode q))"
proof -
  have late: "always (Runs slow) (docker_cmd lib0 bcfg0 req0) (code req0) = Runs slow \<and>
      real_of_int (min (timeout_s req0) (DEFAULT_TIMEOUT bcfg0)) < duration slow"
    by (simp add: always_def slow_def req0_def bcfg0_def)
  have fin: "run lib0 bcfg0 (always (Runs quick)) req0
     = Inr \<lparr>stdout = lit ''hi\<newline>'', stderr = [], exit_code = 3\<rparr>"
    by (simp add: run_always_Runs quick_def req0_def bcfg0_def OUTPUT_CAP_def lit_def)
  from run_timeout [of "always (Runs slow)" lib0 bcfg0 req0 slow] late
  have "run lib0 bcfg0 (always (Runs slow)) req0
     = Inr \<lparr>stdout = [], stderr = lit ''TIMEOUT'', exit_code = 124\<rparr>"
    by blast
  moreover from run_timeout [of "always (Runs quick)" lib0 bcfg0 req0 quick
      "\<lparr>stdout = lit ''hi\<newline>'', stderr = [], exit_code = 3\<rparr>"] fin
  have "\<exists>q. always (Runs quick) (docker_cmd lib0 bcfg0 req0) (code req0) = Runs q \<and>
          (real_of_int (min (timeout_s req0) (DEFAULT_TIMEOUT bcfg0)) < duration q
             \<and> \<lparr>stdout = lit ''hi\<newline>'', stderr = [], exit_code = 3\<rparr>
                 = \<lparr>stdout = [], stderr = lit ''TIMEOUT'', exit_code = 124\<rparr>
           \<or> duration q \<le> real_of_int (min (timeout_s req0) (DEFAULT_TIMEOUT bcfg0))
             \<and> 3 = returncode q)"
    by simp
  ultimately show ?thesis using fin by blast
qed

text \<open>
  C7. The deadline is \<open>min(timeout_s, DEFAULT_TIMEOUT)\<close>: a process that needs more is
  timed out, one that needs no more is not (its output is returned, or HTTP 500 if a
  stream does not decode). Hence a process that outlasts the request's own \<open>timeout_s\<close>
  is always timed out (the ceiling never raises the deadline), and so is one that outlasts
  the ceiling (the ceiling can lower it).
\<close>

theorem run_deadline:
  assumes "dk (docker_cmd L cfg req) (code req) = Runs p"
  shows "(real_of_int (min (timeout_s req) (DEFAULT_TIMEOUT cfg)) < duration p \<longrightarrow>
            run L cfg dk req = Inr \<lparr>stdout = [], stderr = lit ''TIMEOUT'', exit_code = 124\<rparr>)
       \<and> (duration p \<le> real_of_int (min (timeout_s req) (DEFAULT_TIMEOUT cfg))
            \<and> out_stream p = Decodes so \<and> err_stream p = Decodes se \<longrightarrow>
            run L cfg dk req = Inr \<lparr>stdout = take OUTPUT_CAP so,
                                    stderr = take OUTPUT_CAP se,
                                    exit_code = returncode p\<rparr>)
       \<and> (duration p \<le> real_of_int (min (timeout_s req) (DEFAULT_TIMEOUT cfg))
            \<and> (out_stream p = Undecodable m
                \<or> out_stream p = Decodes so \<and> err_stream p = Undecodable m) \<longrightarrow>
            run L cfg dk req = Inl (HTTPException 500 m))
       \<and> (real_of_int (timeout_s req) < duration p \<longrightarrow>
            run L cfg dk req = Inr \<lparr>stdout = [], stderr = lit ''TIMEOUT'', exit_code = 124\<rparr>)
       \<and> (real_of_int (DEFAULT_TIMEOUT cfg) < duration p \<longrightarrow>
            run L cfg dk req = Inr \<lparr>stdout = [], stderr = lit ''TIMEOUT'', exit_code = 124\<rparr>)"
  using assms by (auto simp: run_Runs min_def)

theorem run_deadline_witness:
  "run lib0 bcfg0 (always (Runs slow)) (req0\<lparr>timeout_s := 30\<rparr>)
     = Inr \<lparr>stdout = [], stderr = lit ''TIMEOUT'', exit_code = 124\<rparr>
   \<and> run lib0 (bcfg0\<lparr>DEFAULT_TIMEOUT := 30\<rparr>) (always (Runs slow)) req0
     = Inr \<lparr>stdout = [], stderr = lit ''TIMEOUT'', exit_code = 124\<rparr>
   \<and> run lib0 bcfg0 (always (Runs quick)) req0
     = Inr \<lparr>stdout = lit ''hi\<newline>'', stderr = [], exit_code = 3\<rparr>
   \<and> run lib0 bcfg0 (always (Runs garbled)) req0
     = Inl (HTTPException 500 (lit ''utf-8 codec cannot decode byte 0xff''))"
proof -
  have a: "always (Runs slow) (docker_cmd lib0 bcfg0 (req0\<lparr>timeout_s := 30\<rparr>)) (code (req0\<lparr>timeout_s := 30\<rparr>))
             = Runs slow"
    and b: "always (Runs slow) (docker_cmd lib0 (bcfg0\<lparr>DEFAULT_TIMEOUT := 30\<rparr>) req0) (code req0) = Runs slow"
    and c: "always (Runs quick) (docker_cmd lib0 bcfg0 req0) (code req0) = Runs quick"
    and d: "always (Runs garbled) (docker_cmd lib0 bcfg0 req0) (code req0) = Runs garbled"
    by (simp_all add: always_def)
  have "real_of_int (DEFAULT_TIMEOUT bcfg0) < duration slow"
    by (simp add: bcfg0_def slow_def)
  with run_deadline [of "always (Runs slow)" lib0 bcfg0 "req0\<lparr>timeout_s := 30\<rparr>" slow, OF a]
  have 1: "run lib0 bcfg0 (always (Runs slow)) (req0\<lparr>timeout_s := 30\<rparr>)
     = Inr \<lparr>stdout = [], stderr = lit ''TIMEOUT'', exit_code = 124\<rparr>"
    by blast
  have "real_of_int (timeout_s req0) < duration slow"
    by (simp add: req0_def slow_def)
  with run_deadline [of "always (Runs slow)" lib0 "bcfg0\<lparr>DEFAULT_TIMEOUT := 30\<rparr>" req0 slow, OF b]
  have 2: "run lib0 (bcfg0\<lparr>DEFAULT_TIMEOUT := 30\<rparr>) (always (Runs slow)) req0
     = Inr \<lparr>stdout = [], stderr = lit ''TIMEOUT'', exit_code = 124\<rparr>"
    by blast
  have "duration quick \<le> real_of_int (min (timeout_s req0) (DEFAULT_TIMEOUT bcfg0))
        \<and> out_stream quick = Decodes (lit ''hi\<newline>'') \<and> err_stream quick = Decodes []"
    by (simp add: req0_def bcfg0_def quick_def)
  with run_deadline [of "always (Runs quick)" lib0 bcfg0 req0 quick "lit ''hi\<newline>''" "[]", OF c]
  have "run lib0 bcfg0 (always (Runs quick)) req0
     = Inr \<lparr>stdout = take OUTPUT_CAP (lit ''hi\<newline>''),
             stderr = take OUTPUT_CAP [],
             exit_code = returncode quick\<rparr>"
    by blast
  then have 3: "run lib0 bcfg0 (always (Runs quick)) req0
     = Inr \<lparr>stdout = lit ''hi\<newline>'', stderr = [], exit_code = 3\<rparr>"
    by (simp add: quick_def OUTPUT_CAP_def lit_def)
  have "duration garbled \<le> real_of_int (min (timeout_s req0) (DEFAULT_TIMEOUT bcfg0))
        \<and> out_stream garbled = Undecodable (lit ''utf-8 codec cannot decode byte 0xff'')"
    by (simp add: req0_def bcfg0_def garbled_def)
  with run_deadline [of "always (Runs garbled)" lib0 bcfg0 req0 garbled _ _
      "lit ''utf-8 codec cannot decode byte 0xff''", OF d]
  have 4: "run lib0 bcfg0 (always (Runs garbled)) req0
     = Inl (HTTPException 500 (lit ''utf-8 codec cannot decode byte 0xff''))"
    by blast
  from 1 2 3 4 show ?thesis by blast
qed




section \<open>The direct-code tool\<close>

text \<open>
  C2. For a broker response with exit code zero, \<open>python_exec\<close> raises the "No stdout
  captured" error when stdout is empty or only white space and stderr is empty, and
  returns the result, without error, whenever stdout holds a character that is not
  white space.
\<close>

theorem python_exec_empty_result:
  assumes "post (CPU_SEC cfg + 3) (EXEC_URL cfg @ lit ''/run'') (python_exec_payload L cfg code_arg)
             = Body (resp_json r)"
    and "exit_code r = 0"
  shows "(strip (stdout r) = [] \<and> stderr r = [] \<longrightarrow>
            python_exec L cfg post code_arg = Inl (ToolError NO_STDOUT))
       \<and> (strip (stdout r) \<noteq> [] \<longrightarrow>
            python_exec L cfg post code_arg =
              Inr \<lparr>stdout = stdout r, stderr = stderr r, exit_code = 0,
                    json = parse_stdout L (PyStr (stdout r))\<rparr>)"
  using assms by (simp add: python_exec_Body python_exec_result_resp)

theorem python_exec_empty_result_witness:
  "python_exec lib0 cfg0 (answer \<lparr>stdout = [], stderr = [], exit_code = 0\<rparr>) (Some (lit ''pass''))
     = Inl (ToolError NO_STDOUT)
   \<and> python_exec lib0 cfg0 (answer \<lparr>stdout = lit ''hi\<newline>'', stderr = lit ''warn'', exit_code = 0\<rparr>)
        (Some (lit ''print(1)''))
     = Inr \<lparr>stdout = lit ''hi\<newline>'', stderr = lit ''warn'', exit_code = 0, json = PyNone\<rparr>"
proof -
  have "python_exec lib0 cfg0 (answer \<lparr>stdout = [], stderr = [], exit_code = 0\<rparr>) (Some (lit ''pass''))
     = Inl (ToolError NO_STDOUT)"
    using python_exec_empty_result [of "answer \<lparr>stdout = [], stderr = [], exit_code = 0\<rparr>"
        cfg0 lib0 "Some (lit ''pass'')" "\<lparr>stdout = [], stderr = [], exit_code = 0\<rparr>"]
    by (simp add: answer_def strip_Nil)
  moreover have "python_exec lib0 cfg0
        (answer \<lparr>stdout = lit ''hi\<newline>'', stderr = lit ''warn'', exit_code = 0\<rparr>) (Some (lit ''print(1)''))
     = Inr \<lparr>stdout = lit ''hi\<newline>'', stderr = lit ''warn'', exit_code = 0, json = PyNone\<rparr>"
    using python_exec_empty_result [of
        "answer \<lparr>stdout = lit ''hi\<newline>'', stderr = lit ''warn'', exit_code = 0\<rparr>"
        cfg0 lib0 "Some (lit ''print(1)'')"
        "\<lparr>stdout = lit ''hi\<newline>'', stderr = lit ''warn'', exit_code = 0\<rparr>"]
    by (simp add: answer_def strip_def isspace_def lit_def lib0_def)
  ultimately show ?thesis by blast
qed

text \<open>
  The claim as stated fails: a response with exit code zero whose stdout is one newline
  (not empty) and whose stderr is empty is rejected with the same error.
\<close>

theorem python_exec_empty_result_counterexample:
  "python_exec lib0 cfg0 (answer \<lparr>stdout = lit ''\<newline>'', stderr = [], exit_code = 0\<rparr>)
       (Some (lit ''print()''))
     = Inl (ToolError NO_STDOUT)
   \<and> lit ''\<newline>'' \<noteq> []"
  by (simp add: python_exec_answer python_exec_result_resp strip_def isspace_def lit_def)

text \<open>
  The stderr of the response plays no part in this test: with exit code zero and a blank
  stdout the error is raised whatever stderr holds.
\<close>

lemma python_exec_blank_stdout:
  assumes "exit_code r = 0" and "strip (stdout r) = []"
  shows "python_exec L cfg (answer r) code_arg = Inl (ToolError NO_STDOUT)"
  using assms by (simp add: python_exec_answer python_exec_result_resp)

lemma python_exec_stderr_only:
  "python_exec lib0 cfg0 (answer \<lparr>stdout = [], stderr = lit ''warning'', exit_code = 0\<rparr>)
       (Some (lit ''import sys; print(1, file=sys.stderr)''))
     = Inl (ToolError NO_STDOUT)"
  by (simp add: python_exec_blank_stdout strip_Nil)

text \<open>
  C6. For a broker response with a non-zero exit code, \<open>python_exec\<close> raises a
  \<open>ToolError\<close> whose message is \<open>sandbox failed (exit N)\<close>, followed, if and only if
  stderr holds a character that is not white space, by \<open>": "\<close> and the stripped stderr,
  cut to 800 characters and followed by U+2026 when the stripped stderr is longer than
  800 characters.
\<close>

theorem python_exec_nonzero_exit:
  assumes "post (CPU_SEC cfg + 3) (EXEC_URL cfg @ lit ''/run'') (python_exec_payload L cfg code_arg)
             = Body (resp_json r)"
    and "exit_code r \<noteq> 0"
  shows "python_exec L cfg post code_arg =
           Inl (ToolError
             (lit ''sandbox failed (exit '' @ str_int (exit_code r) @ lit '')''
              @ (if strip (stderr r) = [] then []
                 else lit '': ''
                      @ (if 800 < length (strip (stderr r))
                         then take 800 (strip (stderr r)) @ [8230]
                         else strip (stderr r)))))"
  using assms
  by (simp add: python_exec_Body python_exec_result_resp failure_message_def ELLIPSIS_def)

theorem python_exec_nonzero_exit_witness:
  "python_exec lib0 cfg0 (answer \<lparr>stdout = [], stderr = lit ''boom\<newline>'', exit_code = 2\<rparr>)
       (Some (lit ''raise SystemExit(2)''))
     = Inl (ToolError (lit ''sandbox failed (exit 2): boom''))
   \<and> python_exec lib0 cfg0 (answer \<lparr>stdout = [], stderr = replicate 801 97, exit_code = 1\<rparr>) None
     = Inl (ToolError (lit ''sandbox failed (exit 1): '' @ replicate 800 97 @ [8230]))"
proof -
  have "python_exec lib0 cfg0 (answer \<lparr>stdout = [], stderr = lit ''boom\<newline>'', exit_code = 2\<rparr>)
       (Some (lit ''raise SystemExit(2)''))
     = Inl (ToolError (lit ''sandbox failed (exit 2): boom''))"
    using python_exec_nonzero_exit [of
        "answer \<lparr>stdout = [], stderr = lit ''boom\<newline>'', exit_code = 2\<rparr>" cfg0 lib0
        "Some (lit ''raise SystemExit(2)'')"
        "\<lparr>stdout = [], stderr = lit ''boom\<newline>'', exit_code = 2\<rparr>"]
    by (simp add: answer_def strip_def isspace_def lit_def str_int_def)
  moreover have "python_exec lib0 cfg0
       (answer \<lparr>stdout = [], stderr = replicate 801 97, exit_code = 1\<rparr>) None
     = Inl (ToolError (lit ''sandbox failed (exit 1): '' @ replicate 800 97 @ [8230]))"
    using python_exec_nonzero_exit [of
        "answer \<lparr>stdout = [], stderr = replicate 801 97, exit_code = 1\<rparr>" cfg0 lib0 None
        "\<lparr>stdout = [], stderr = replicate 801 97, exit_code = 1\<rparr>"]
    by (simp add: answer_def strip_def isspace_def lit_def str_int_def)
  ultimately show ?thesis by blast
qed

text \<open>
  The claim as stated fails twice. For exit code 1 and a stderr of one blank (not empty)
  the message carries no excerpt; and for a stderr of 800 times \<open>x\<close> and a newline
  (801 characters) the message ends with the 800 \<open>x\<close> and carries no U+2026.
\<close>

theorem python_exec_nonzero_exit_counterexample:
  "python_exec lib0 cfg0 (answer \<lparr>stdout = [], stderr = lit '' '', exit_code = 1\<rparr>)
       (Some (lit ''raise SystemExit(1)''))
     = Inl (ToolError (lit ''sandbox failed (exit 1)''))
   \<and> lit '' '' \<noteq> []
   \<and> python_exec lib0 cfg0
         (answer \<lparr>stdout = [], stderr = replicate 800 120 @ lit ''\<newline>'', exit_code = 1\<rparr>)
         (Some (lit ''raise SystemExit(1)''))
     = Inl (ToolError (lit ''sandbox failed (exit 1): '' @ replicate 800 120))
   \<and> length (replicate 800 (120::nat) @ lit ''\<newline>'') = 801"
proof -
  have "strip (replicate 800 120 @ lit ''\<newline>'') = replicate 800 120"
    by (simp add: lit_def strip_snoc_space strip_replicate isspace_def)
  moreover have "strip (lit '' '') = []"
    by (simp add: strip_def isspace_def lit_def)
  ultimately show ?thesis
    by (simp add: python_exec_answer python_exec_result_resp failure_message_def str_int_def)
      (simp add: lit_def)
qed



section \<open>The shell tool\<close>

text \<open>
  C4. When the outer stdout (which the tool strips before decoding it) decodes to an
  object with a text \<open>stdout\<close>, a text \<open>stderr\<close> and an integer \<open>exit_code\<close>,
  \<open>shell_exec\<close> returns the inner stdout and the inner exit code, and the inner stderr
  unless that is empty, in which case it returns the outer stderr.
\<close>

theorem shell_exec_inner_triple:
  assumes "post (timeout_or timeout_arg (CPU_SEC cfg) + 3) (EXEC_URL cfg @ lit ''/run'')
             (shell_exec_payload L cfg script stdin timeout_arg) = Body (resp_json r)"
    and "strip (stdout r) \<noteq> []"
    and "json_loads L (strip (stdout r)) = Some (PyDict kv)"
    and "map_of kv (lit ''stdout'') = Some (PyStr so)"
    and "map_of kv (lit ''stderr'') = Some (PyStr se)"
    and "map_of kv (lit ''exit_code'') = Some (PyInt ec)"
  shows "shell_exec L cfg post script stdin timeout_arg =
           Inr \<lparr>stdout = so, stderr = (if se = [] then stderr r else se), exit_code = ec\<rparr>"
proof -
  have "unwrap_inner L (strip (stdout r)) (PyStr (stderr r)) =
          Inr \<lparr>stdout = so, stderr = (if se = [] then stderr r else se), exit_code = ec\<rparr>"
    using assms(3-6) by (simp add: unwrap_inner_Some read_inner_triple)
  with assms(1,2) show ?thesis
    by (simp add: shell_exec_Body shell_exec_result_resp)
qed

theorem shell_exec_inner_triple_witness:
  "shell_exec lib1 cfg0 (answer \<lparr>stdout = TRIPLE_TEXT @ lit ''\<newline>'', stderr = lit ''warn'', exit_code = 0\<rparr>)
       (lit ''echo hi; exit 7'') None None
     = Inr \<lparr>stdout = lit ''hi\<newline>'', stderr = lit ''warn'', exit_code = 7\<rparr>"
proof -
  let ?r = "\<lparr>stdout = TRIPLE_TEXT @ lit ''\<newline>'', stderr = lit ''warn'', exit_code = 0\<rparr>"
  let ?kv = "[(lit ''stdout'', PyStr (lit ''hi\<newline>'')), (lit ''stderr'', PyStr []),
              (lit ''exit_code'', PyInt 7)]"
  have s: "strip (stdout ?r) = TRIPLE_TEXT"
    by (simp add: strip_def isspace_def TRIPLE_TEXT_def dq_def lit_def)
  have a: "answer ?r (timeout_or None (CPU_SEC cfg0) + 3) (EXEC_URL cfg0 @ lit ''/run'')
             (shell_exec_payload lib1 cfg0 (lit ''echo hi; exit 7'') None None) = Body (resp_json ?r)"
    by (simp add: answer_def)
  have b: "strip (stdout ?r) \<noteq> []"
    unfolding s by (simp add: TRIPLE_TEXT_def lit_def)
  have c: "json_loads lib1 (strip (stdout ?r)) = Some (PyDict ?kv)"
    unfolding s by (simp add: lib1_def TRIPLE_def)
  have d: "map_of ?kv (lit ''stdout'') = Some (PyStr (lit ''hi\<newline>''))"
    and e: "map_of ?kv (lit ''stderr'') = Some (PyStr [])"
    and f: "map_of ?kv (lit ''exit_code'') = Some (PyInt 7)"
    by (simp_all add: lit_def)
  from shell_exec_inner_triple [where post = "answer ?r" and L = lib1 and cfg = cfg0 and r = ?r
      and script = "lit ''echo hi; exit 7''" and stdin = None and timeout_arg = None
      and kv = ?kv, OF a b c d e f]
  show ?thesis by simp
qed

text \<open>
  C5. When the outer stdout is empty, \<open>shell_exec\<close> raises nothing and returns
  \<open>stdout = ""\<close>, the outer stderr and \<open>exit_code = 0\<close>.
\<close>

theorem shell_exec_empty_stdout:
  assumes "post (timeout_or timeout_arg (CPU_SEC cfg) + 3) (EXEC_URL cfg @ lit ''/run'')
             (shell_exec_payload L cfg script stdin timeout_arg) = Body (resp_json r)"
    and "stdout r = []"
  shows "shell_exec L cfg post script stdin timeout_arg =
           Inr \<lparr>stdout = [], stderr = stderr r, exit_code = 0\<rparr>"
  using assms by (simp add: shell_exec_Body shell_exec_result_resp strip_Nil)

theorem shell_exec_empty_stdout_witness:
  "shell_exec lib0 cfg0 (answer \<lparr>stdout = [], stderr = lit ''note'', exit_code = 0\<rparr>)
       (lit ''true'') None None
     = Inr \<lparr>stdout = [], stderr = lit ''note'', exit_code = 0\<rparr>"
  using shell_exec_empty_stdout [of "answer \<lparr>stdout = [], stderr = lit ''note'', exit_code = 0\<rparr>"
      None cfg0 lib0 "lit ''true''" None "\<lparr>stdout = [], stderr = lit ''note'', exit_code = 0\<rparr>"]
  by (simp add: answer_def)




text \<open>
  C9. When the broker times out the wrapper that \<open>shell_exec\<close> sent, its response is
  \<open>stdout = ""\<close>, \<open>stderr = "TIMEOUT"\<close>, \<open>exit_code = 124\<close>, and \<open>shell_exec\<close> returns
  \<open>stdout = ""\<close>, \<open>stderr = "TIMEOUT"\<close>, \<open>exit_code = 0\<close>: a success. The outer exit code
  is not looked at: the tool reads the same result from that response under any other
  exit code \<open>ec\<close>.
\<close>

theorem shell_exec_broker_timeout:
  assumes "dk (docker_cmd L bcfg (shell_exec_payload L cfg script stdin timeout_arg))
              (code (shell_exec_payload L cfg script stdin timeout_arg)) = Runs p"
    and "real_of_int (min (timeout_s (shell_exec_payload L cfg script stdin timeout_arg))
                          (DEFAULT_TIMEOUT bcfg)) < duration p"
    and "run L bcfg dk (shell_exec_payload L cfg script stdin timeout_arg) = Inr r"
    and "post (timeout_or timeout_arg (CPU_SEC cfg) + 3) (EXEC_URL cfg @ lit ''/run'')
             (shell_exec_payload L cfg script stdin timeout_arg) = Body (resp_json r)"
  shows "r = \<lparr>stdout = [], stderr = lit ''TIMEOUT'', exit_code = 124\<rparr>
       \<and> shell_exec L cfg post script stdin timeout_arg =
           Inr \<lparr>stdout = [], stderr = lit ''TIMEOUT'', exit_code = 0\<rparr>
       \<and> shell_exec_result L (resp_json (r\<lparr>exit_code := ec\<rparr>)) =
           Inr \<lparr>stdout = [], stderr = lit ''TIMEOUT'', exit_code = 0\<rparr>"
proof -
  from assms(1,2,3) have r: "r = \<lparr>stdout = [], stderr = lit ''TIMEOUT'', exit_code = 124\<rparr>"
    by (simp add: run_Runs)
  then have "shell_exec_result L (resp_json (r\<lparr>exit_code := ec\<rparr>)) =
           Inr \<lparr>stdout = [], stderr = lit ''TIMEOUT'', exit_code = 0\<rparr>"
    by (simp add: shell_exec_result_resp strip_Nil)
  moreover from r assms(4) have "shell_exec L cfg post script stdin timeout_arg =
           Inr \<lparr>stdout = [], stderr = lit ''TIMEOUT'', exit_code = 0\<rparr>"
    by (simp add: shell_exec_Body shell_exec_result_resp strip_Nil)
  ultimately show ?thesis using r by blast
qed

theorem shell_exec_broker_timeout_witness:
  "shell_exec lib0 cfg0 (answer \<lparr>stdout = [], stderr = lit ''TIMEOUT'', exit_code = 124\<rparr>)
       (lit ''sleep 60'') None None
     = Inr \<lparr>stdout = [], stderr = lit ''TIMEOUT'', exit_code = 0\<rparr>
   \<and> run lib0 bcfg0 (always (Runs slow)) (shell_exec_payload lib0 cfg0 (lit ''sleep 60'') None None)
     = Inr \<lparr>stdout = [], stderr = lit ''TIMEOUT'', exit_code = 124\<rparr>"
proof -
  let ?r = "\<lparr>stdout = [], stderr = lit ''TIMEOUT'', exit_code = 124\<rparr>"
  let ?req = "shell_exec_payload lib0 cfg0 (lit ''sleep 60'') None None"
  have t: "timeout_s ?req = 6"
    by (simp add: shell_exec_payload_def timeout_or_def cfg0_def)
  have a: "always (Runs slow) (docker_cmd lib0 bcfg0 ?req) (code ?req) = Runs slow"
    by (simp add: always_def)
  have b: "real_of_int (min (timeout_s ?req) (DEFAULT_TIMEOUT bcfg0)) < duration slow"
    unfolding t by (simp add: bcfg0_def slow_def)
  have c: "run lib0 bcfg0 (always (Runs slow)) ?req = Inr ?r"
    using b by (simp add: run_always_Runs)
  have d: "answer ?r (timeout_or None (CPU_SEC cfg0) + 3) (EXEC_URL cfg0 @ lit ''/run'') ?req
             = Body (resp_json ?r)"
    by (simp add: answer_def)
  from shell_exec_broker_timeout [where post = "answer ?r" and dk = "always (Runs slow)"
      and L = lib0 and cfg = cfg0 and bcfg = bcfg0 and r = ?r and p = slow
      and script = "lit ''sleep 60''" and stdin = None and timeout_arg = None, OF a b c d] c
  show ?thesis by blast
qed

end
